theory Spec2Isabelle
  imports Complex_Main
begin

section \<open>Data model of generate_map.py\<close>

text \<open>
  Text is a list of 8-bit characters. The character classes of the regular expression
  (\<^verbatim>\<open>\s\<close>, \<^verbatim>\<open>\d\<close>) are given for the code points below 256; letter case
  (\<^verbatim>\<open>str.title\<close>) is given for ASCII letters, other characters are left as they are.

  The type \<open>'f\<close> of Python's floats is left open. The conversion of a decimal number to
  the double nearest to it, which \<^verbatim>\<open>float\<close> applies to the number its text denotes,
  is a parameter of the world. In the examples the floats are rationals and every
  decimal stands for the double nearest to it.
\<close>

datatype exn = RequestException | ValueError | KeyError | OSError

text \<open>
  \<^verbatim>\<open>datetime.strptime(date, "%Y-%m-%d")\<close> gives a datetime whose time of day is
  midnight; only the calendar fields are kept.
\<close>

record date =
  year :: nat
  month :: nat
  day :: nat

text \<open>
  \<^verbatim>\<open>
  @dataclass
  class Event:
      link: str
      datetime: datetime
      lat: float = 0.0
      lon: float = 0.0

      def __hash__(self):
          return hash(self.link)
  \<close>
  The dataclass decorator generates \<^verbatim>\<open>__eq__\<close>, which compares the tuples of all four
  fields; this is the equality of the record. Only \<^verbatim>\<open>__hash__\<close> is overridden.
\<close>

record 'f Event =
  link :: string
  datetime :: date
  lat :: 'f
  lon :: 'f

definition mk_Event :: "string \<Rightarrow> date \<Rightarrow> 'f \<Rightarrow> 'f \<Rightarrow> 'f Event" where
  "mk_Event l d la lo = \<lparr>link = l, datetime = d, lat = la, lon = lo\<rparr>"

text \<open>The stub made by the listing parser: \<^verbatim>\<open>Event(url, date)\<close>, coordinates defaulted.\<close>

definition stub :: "string \<Rightarrow> date \<Rightarrow> ('f::zero) Event" where
  "stub l d = mk_Event l d 0 0"

text \<open>
  \<^verbatim>\<open>hash(self.link)\<close>: the hash of a string is a parameter (it is salted per process).
\<close>

definition hash_Event :: "(string \<Rightarrow> int) \<Rightarrow> 'f Event \<Rightarrow> int" where
  "hash_Event str_hash e = str_hash (link e)"

text \<open>
  \<^verbatim>\<open>events.add(e)\<close> on a Python set: the element is dropped when the set holds an element
  with the same hash that is \<^verbatim>\<open>==\<close> to it, and stored otherwise. The set is kept as a
  list without repetitions, in the order of insertion; the order in which Python iterates
  the set is a parameter of the world.
\<close>

definition set_add :: "(string \<Rightarrow> int) \<Rightarrow> 'f Event list \<Rightarrow> 'f Event \<Rightarrow> 'f Event list" where
  "set_add str_hash s e =
     (if list_ex (\<lambda>x. hash_Event str_hash x = hash_Event str_hash e \<and> x = e) s
      then s else s @ [e])"

section \<open>Characters and numbers\<close>

definition is_digit :: "char \<Rightarrow> bool" where
  "is_digit c = (48 \<le> (of_char c :: nat) \<and> (of_char c :: nat) \<le> 57)"

definition digit_val :: "char \<Rightarrow> nat" where
  "digit_val c = of_char c - 48"

definition digit_char :: "nat \<Rightarrow> char" where
  "digit_char n = char_of (48 + n)"

text \<open>\<^verbatim>\<open>int(s)\<close> on a string of decimal digits.\<close>

definition digits_val :: "string \<Rightarrow> nat" where
  "digits_val s = foldl (\<lambda>a c. 10 * a + digit_val c) 0 s"

text \<open>\<^verbatim>\<open>str(n)\<close> for a natural number, as an f-string prints it.\<close>

fun str_nat :: "nat \<Rightarrow> string" where
  "str_nat n = (if n < 10 then [digit_char n] else str_nat (n div 10) @ [digit_char (n mod 10)])"

declare str_nat.simps [simp del]

text \<open>
  The white space of \<^verbatim>\<open>\s\<close> in a str pattern: the characters for which
  \<^verbatim>\<open>str.isspace\<close> holds. Below 256 these are 9 to 13, 28 to 32, 133 and 160.
\<close>

definition is_space :: "char \<Rightarrow> bool" where
  "is_space c = (let n = (of_char c :: nat) in (9 \<le> n \<and> n \<le> 13) \<or> (28 \<le> n \<and> n \<le> 32) \<or> n = 133 \<or> n = 160)"

text \<open>The class \<^verbatim>\<open>[-\d.]\<close>.\<close>

definition is_numch :: "char \<Rightarrow> bool" where
  "is_numch c = (c = CHR ''-'' \<or> is_digit c \<or> c = CHR ''.'')"

text \<open>
  \<^verbatim>\<open>float(s)\<close> on the strings a capture group \<^verbatim>\<open>([-\d.]+)\<close> can hold. Over this alphabet
  \<^verbatim>\<open>float\<close> accepts an optional minus sign followed by digits with at most one point and
  at least one digit, and raises ValueError on everything else (\<^verbatim>\<open>1.2.3\<close>, \<^verbatim>\<open>-\<close>,
  \<^verbatim>\<open>.\<close>, \<^verbatim>\<open>1-2\<close>). The result is \<open>to_double neg m\<close>: the double nearest to the decimal
  number \<open>m\<close> that the digits denote, with the sign \<open>neg\<close> (an infinity when \<open>m\<close> is too
  large).
\<close>

definition py_float :: "(bool \<Rightarrow> rat \<Rightarrow> 'f) \<Rightarrow> string \<Rightarrow> exn + 'f" where
  "py_float to_double s =
     (let neg = (case s of [] \<Rightarrow> False | c # _ \<Rightarrow> c = CHR ''-'');
          body = (if neg then tl s else s);
          ip = takeWhile is_digit body;
          r1 = dropWhile is_digit body;
          pt = (case r1 of [] \<Rightarrow> False | c # _ \<Rightarrow> c = CHR ''.'');
          fp = (if pt then takeWhile is_digit (tl r1) else []);
          r2 = (if pt then dropWhile is_digit (tl r1) else r1)
      in if r2 \<noteq> [] \<or> (ip = [] \<and> fp = []) then Inl ValueError
         else Inr (to_double neg (of_nat (digits_val (ip @ fp)) / 10 ^ length fp)))"

section \<open>The marker pattern and re.search\<close>

text \<open>
  \<^verbatim>\<open>
  marker_pattern = re.compile(
      r"var\s+marker\s*=\s*L\.marker\(\s*\[\s*([-\d.]+)\s*,\s*([-\d.]+)\s*\]"
  )
  \<close>
  The pattern is a sequence of single-character items, each with a quantifier, and the
  brackets of the two capture groups.
\<close>

datatype cls = Space | NumCh | Ch char

datatype quant = One | Star | Plus

datatype tok = Tok cls quant | GOpen | GClose

fun in_cls :: "cls \<Rightarrow> char \<Rightarrow> bool" where
  "in_cls Space c = is_space c"
| "in_cls NumCh c = is_numch c"
| "in_cls (Ch d) c = (c = d)"

definition lit :: "string \<Rightarrow> tok list" where
  "lit s = map (\<lambda>c. Tok (Ch c) One) s"

definition marker_pattern :: "tok list" where
  "marker_pattern =
     lit ''var'' @ [Tok Space Plus] @ lit ''marker'' @ [Tok Space Star] @ lit ''=''
     @ [Tok Space Star] @ lit ''L.marker('' @ [Tok Space Star] @ lit ''[''
     @ [Tok Space Star, GOpen, Tok NumCh Plus, GClose, Tok Space Star] @ lit '',''
     @ [Tok Space Star, GOpen, Tok NumCh Plus, GClose, Tok Space Star] @ lit '']''"

text \<open>
  The backtracking matcher of \<^verbatim>\<open>re\<close>, anchored at the start of the input: a greedy
  quantifier first tries to take one more character and falls back to the rest of
  the pattern when that fails. \<open>opn\<close> holds the input at each open group bracket, \<open>gs\<close>
  the groups closed so far. The result is the list of groups and the input left over.
\<close>

fun rmatch :: "tok list \<Rightarrow> string \<Rightarrow> string list \<Rightarrow> string list \<Rightarrow> (string list \<times> string) option" where
  "rmatch [] s opn gs = Some (gs, s)"
| "rmatch (GOpen # ts) s opn gs = rmatch ts s (s # opn) gs"
| "rmatch (GClose # ts) s opn gs =
     (case opn of [] \<Rightarrow> None
      | s0 # opn' \<Rightarrow> rmatch ts s opn' (gs @ [take (length s0 - length s) s0]))"
| "rmatch (Tok c One # ts) s opn gs =
     (case s of [] \<Rightarrow> None
      | x # xs \<Rightarrow> if in_cls c x then rmatch ts xs opn gs else None)"
| "rmatch (Tok c Plus # ts) s opn gs =
     (case s of [] \<Rightarrow> None
      | x # xs \<Rightarrow> if in_cls c x then rmatch (Tok c Star # ts) xs opn gs else None)"
| "rmatch (Tok c Star # ts) s opn gs =
     (case s of [] \<Rightarrow> rmatch ts [] opn gs
      | x # xs \<Rightarrow>
          if in_cls c x
          then (case rmatch (Tok c Star # ts) xs opn gs of
                  Some r \<Rightarrow> Some r
                | None \<Rightarrow> rmatch ts s opn gs)
          else rmatch ts s opn gs)"

text \<open>
  \<^verbatim>\<open>pattern.search(text)\<close>: the match at the leftmost position where the pattern
  matches, or None.
\<close>

fun search :: "tok list \<Rightarrow> string \<Rightarrow> string list option" where
  "search p [] = map_option fst (rmatch p [] [] [])"
| "search p (x # xs) =
     (case rmatch p (x # xs) [] [] of
        Some r \<Rightarrow> Some (fst r)
      | None \<Rightarrow> search p xs)"

section \<open>Dates: strptime and strftime\<close>

definition in_range :: "char \<Rightarrow> char \<Rightarrow> char \<Rightarrow> bool" where
  "in_range lo hi c = ((of_char lo :: nat) \<le> of_char c \<and> (of_char c :: nat) \<le> of_char hi)"

text \<open>
  \<^verbatim>\<open>strptime\<close> turns the format \<^verbatim>\<open>%Y-%m-%d\<close> into the regular expression
  \<^verbatim>\<open>(?P<Y>\d\d\d\d)-(?P<m>1[0-2]|0[1-9]|[1-9])-(?P<d>3[0-1]|[1-2]\d|0[1-9]|[1-9]| [1-9])\<close>,
  matches it at the start of the string and raises ValueError when the match fails, when
  text is left over after the match, or when the fields are not a date of the calendar.
  An alternative of two characters and one of a single character, each giving the
  number read and the rest of the input:
\<close>

definition alt2 :: "(char \<Rightarrow> bool) \<Rightarrow> (char \<Rightarrow> bool) \<Rightarrow> string \<Rightarrow> (nat \<times> string) list" where
  "alt2 p q s =
     (case s of a # b # r \<Rightarrow> if p a \<and> q b then [(10 * digit_val a + digit_val b, r)] else []
      | _ \<Rightarrow> [])"

definition alt1 :: "(char \<Rightarrow> bool) \<Rightarrow> string \<Rightarrow> (nat \<times> string) list" where
  "alt1 p s = (case s of a # r \<Rightarrow> if p a then [(digit_val a, r)] else [] | _ \<Rightarrow> [])"

definition alt_sp :: "string \<Rightarrow> (nat \<times> string) list" where
  "alt_sp s =
     (case s of a # b # r \<Rightarrow>
        if a = CHR '' '' \<and> in_range (CHR ''1'') (CHR ''9'') b then [(digit_val b, r)] else []
      | _ \<Rightarrow> [])"

text \<open>The ways \<^verbatim>\<open>%m\<close> and \<^verbatim>\<open>%d\<close> match at the head of the input, in the order tried.\<close>

definition month_alts :: "string \<Rightarrow> (nat \<times> string) list" where
  "month_alts s =
     alt2 (in_range (CHR ''1'') (CHR ''1'')) (in_range (CHR ''0'') (CHR ''2'')) s
     @ alt2 (in_range (CHR ''0'') (CHR ''0'')) (in_range (CHR ''1'') (CHR ''9'')) s
     @ alt1 (in_range (CHR ''1'') (CHR ''9'')) s"

definition day_alts :: "string \<Rightarrow> (nat \<times> string) list" where
  "day_alts s =
     alt2 (in_range (CHR ''3'') (CHR ''3'')) (in_range (CHR ''0'') (CHR ''1'')) s
     @ alt2 (in_range (CHR ''1'') (CHR ''2'')) is_digit s
     @ alt2 (in_range (CHR ''0'') (CHR ''0'')) (in_range (CHR ''1'') (CHR ''9'')) s
     @ alt1 (in_range (CHR ''1'') (CHR ''9'')) s
     @ alt_sp s"

definition is_leap :: "nat \<Rightarrow> bool" where
  "is_leap y = (y mod 4 = 0 \<and> (y mod 100 \<noteq> 0 \<or> y mod 400 = 0))"

definition days_in_month :: "nat \<Rightarrow> nat \<Rightarrow> nat" where
  "days_in_month y m =
     (if m = 2 then (if is_leap y then 29 else 28)
      else if m = 4 \<or> m = 6 \<or> m = 9 \<or> m = 11 then 30 else 31)"

text \<open>The check made by the constructor of a date (years run from 1 to 9999).\<close>

definition valid_date :: "nat \<Rightarrow> nat \<Rightarrow> nat \<Rightarrow> bool" where
  "valid_date y m d = (1 \<le> y \<and> 1 \<le> m \<and> m \<le> 12 \<and> 1 \<le> d \<and> d \<le> days_in_month y m)"

text \<open>
  The matches of the month, the hyphen and the day, in the order the backtracking
  matcher finds them; the first one is the match.
\<close>

definition md_matches :: "string \<Rightarrow> (nat \<times> nat \<times> string) list" where
  "md_matches r =
     concat (map (\<lambda>(m, r1).
        case r1 of [] \<Rightarrow> []
        | c # r2 \<Rightarrow> if c = CHR ''-'' then map (\<lambda>(d, r3). (m, d, r3)) (day_alts r2) else [])
      (month_alts r))"

definition strptime :: "string \<Rightarrow> exn + date" where
  "strptime s =
     (case s of
        y1 # y2 # y3 # y4 # h # r \<Rightarrow>
          if is_digit y1 \<and> is_digit y2 \<and> is_digit y3 \<and> is_digit y4 \<and> h = CHR ''-''
          then (case md_matches r of
                  [] \<Rightarrow> Inl ValueError
                | (m, d, rest) # _ \<Rightarrow>
                    if rest \<noteq> [] then Inl ValueError
                    else if valid_date (digits_val [y1, y2, y3, y4]) m d
                    then Inr \<lparr>year = digits_val [y1, y2, y3, y4], month = m, day = d\<rparr>
                    else Inl ValueError)
          else Inl ValueError
      | _ \<Rightarrow> Inl ValueError)"

definition month_names :: "string list" where
  "month_names = [''January'', ''February'', ''March'', ''April'', ''May'', ''June'', ''July'',
     ''August'', ''September'', ''October'', ''November'', ''December'']"

definition month_name :: "nat \<Rightarrow> string" where
  "month_name m = (if 1 \<le> m \<and> m \<le> 12 then month_names ! (m - 1) else [])"

definition pad2 :: "nat \<Rightarrow> string" where
  "pad2 n = (if n < 10 then CHR ''0'' # str_nat n else str_nat n)"

text \<open>
  \<^verbatim>\<open>event.datetime.strftime("%B %d, %Y")\<close>, with the month names of the C locale. The
  year is printed without padding (the two conventions differ below the year 1000 only).
\<close>

definition strftime :: "date \<Rightarrow> string" where
  "strftime d = month_name (month d) @ '' '' @ pad2 (day d) @ '', '' @ str_nat (year d)"

section \<open>The derived title\<close>

definition removeprefix :: "string \<Rightarrow> string \<Rightarrow> string" where
  "removeprefix p s = (if take (length p) s = p then drop (length p) s else s)"

definition removesuffix :: "string \<Rightarrow> string \<Rightarrow> string" where
  "removesuffix x s =
     (if x \<noteq> [] \<and> length x \<le> length s \<and> drop (length s - length x) s = x
      then take (length s - length x) s else s)"

text \<open>\<^verbatim>\<open>s.replace("-", " ")\<close>: both strings are one character long.\<close>

definition replace_char :: "char \<Rightarrow> char \<Rightarrow> string \<Rightarrow> string" where
  "replace_char a b s = map (\<lambda>c. if c = a then b else c) s"

definition is_upper :: "char \<Rightarrow> bool" where
  "is_upper c = in_range (CHR ''A'') (CHR ''Z'') c"

definition is_lower :: "char \<Rightarrow> bool" where
  "is_lower c = in_range (CHR ''a'') (CHR ''z'') c"

definition to_upper :: "char \<Rightarrow> char" where
  "to_upper c = (if is_lower c then char_of ((of_char c :: nat) - 32) else c)"

definition to_lower :: "char \<Rightarrow> char" where
  "to_lower c = (if is_upper c then char_of ((of_char c :: nat) + 32) else c)"

text \<open>
  \<^verbatim>\<open>str.title\<close>: a letter that follows a letter is put in lower case, any other letter in
  upper case; \<open>prev\<close> says whether the previous character was a letter.
\<close>

fun title_from :: "bool \<Rightarrow> string \<Rightarrow> string" where
  "title_from prev [] = []"
| "title_from prev (c # cs) =
     (if is_upper c \<or> is_lower c
      then (if prev then to_lower c else to_upper c) # title_from True cs
      else c # title_from False cs)"

text \<open>
  \<^verbatim>\<open>
  @property
  def title(self):
      return (
          self.link.removeprefix("https://fftri.t2area.com/calendrier/")
          .removesuffix(".html")
          .replace("-", " ")
          .title()
      )
  \<close>
\<close>

definition title :: "'f Event \<Rightarrow> string" where
  "title e =
     title_from False
       (replace_char (CHR ''-'') (CHR '' '')
          (removesuffix ''.html''
             (removeprefix ''https://fftri.t2area.com/calendrier/'' (link e))))"

section \<open>The outside world\<close>

text \<open>
  \<^verbatim>\<open>requests.get(url)\<close> either raises a RequestException (no connection, time-out,
  bad URL, too many redirects) or gives a response with a status code and a text. The
  web is taken to be the same during a run: one URL, one answer.
\<close>

datatype http = NetworkError | Response nat string

text \<open>
  A listing entry, as the queries on one \<^verbatim>\<open>li\<close> of
  \<^verbatim>\<open>soup.select("ul#adv-filter-gallery > li")\<close> see it:
  \<^verbatim>\<open>li.select_one("h4.stories__headline a")\<close> and \<^verbatim>\<open>li.select_one("time[datetime]")\<close>
  each give None or a tag, and a tag is the map of its attributes.
\<close>

record li =
  a_tag :: "(string \<rightharpoonup> string) option"
  time_tag :: "(string \<rightharpoonup> string) option"

text \<open>
  The libraries the program calls: the transport, the HTML parser with the selector of
  the listing entries, \<^verbatim>\<open>urllib.parse.urljoin\<close> (which raises ValueError on some
  malformed URLs), the hash of strings, the order in which a set of events is iterated
  (given the list of its elements in the order of insertion, Python gives some
  rearrangement of it) and the rounding of a signed decimal number to a double.
\<close>

record 'f world =
  fetch :: "string \<Rightarrow> http"
  select_li :: "string \<Rightarrow> li list"
  urljoin :: "string \<Rightarrow> string \<Rightarrow> exn + string"
  str_hash :: "string \<Rightarrow> int"
  iter_order :: "'f Event list \<Rightarrow> 'f Event list"
  to_double :: "bool \<Rightarrow> rat \<Rightarrow> 'f"

text \<open>The lines written by \<^verbatim>\<open>console.log\<close>, one constructor for each call in the source.\<close>

datatype 'f log_msg =
    LoadingStartUrl string
  | FailedToLoad string
  | IssueParsing exn
  | EventsFound nat
  | FoundMarker 'f 'f
  | NoMarkerFound string
  | ErrorFetching string
  | NoMarkersToPlot
  | MapSaved string

text \<open>
  \<^verbatim>\<open>response.raise_for_status()\<close> raises HTTPError, a RequestException, for the status
  codes from 400 to 599 and for no other.
\<close>

definition raise_for_status :: "nat \<Rightarrow> exn + unit" where
  "raise_for_status st = (if 400 \<le> st \<and> st < 600 then Inl RequestException else Inr ())"

text \<open>\<^verbatim>\<open>r = requests.get(url); r.raise_for_status()\<close>, giving \<^verbatim>\<open>r.text\<close>.\<close>

definition get_text :: "'f world \<Rightarrow> string \<Rightarrow> exn + string" where
  "get_text W url =
     (case fetch W url of
        NetworkError \<Rightarrow> Inl RequestException
      | Response st body \<Rightarrow>
          (case raise_for_status st of Inl e \<Rightarrow> Inl e | Inr _ \<Rightarrow> Inr body))"

section \<open>Listing Crawler: extract_event_links_and_dates\<close>

text \<open>
  The body of the \<^verbatim>\<open>try\<close> for one entry:
  \<^verbatim>\<open>
  a_tag = li.select_one("h4.stories__headline a")
  time_tag = li.select_one("time[datetime]")
  if a_tag and time_tag:
      url = urljoin(base_url, a_tag["href"])
      date = time_tag["datetime"]
      events.add(Event(url, datetime.strptime(date, "%Y-%m-%d")))
  \<close>
  The result is the exception raised, or the event to add if there is one.
\<close>

definition parse_li :: "'f world \<Rightarrow> string \<Rightarrow> li \<Rightarrow> exn + ('f::zero) Event option" where
  "parse_li W base_url e =
     (case a_tag e of None \<Rightarrow> Inr None
      | Some a \<Rightarrow>
     (case time_tag e of None \<Rightarrow> Inr None
      | Some t \<Rightarrow>
     (case a ''href'' of None \<Rightarrow> Inl KeyError
      | Some href \<Rightarrow>
     (case urljoin W base_url href of Inl x \<Rightarrow> Inl x
      | Inr url \<Rightarrow>
     (case t ''datetime'' of None \<Rightarrow> Inl KeyError
      | Some dt \<Rightarrow>
     (case strptime dt of Inl x \<Rightarrow> Inl x
      | Inr d \<Rightarrow> Inr (Some (stub url d))))))))"

text \<open>
  The loop over the entries; \<^verbatim>\<open>except Exception\<close> logs the warning and goes on with
  the next entry.
\<close>

fun li_loop :: "'f world \<Rightarrow> string \<Rightarrow> li list \<Rightarrow> ('f::zero) Event list \<Rightarrow> 'f log_msg list
    \<Rightarrow> 'f Event list \<times> 'f log_msg list" where
  "li_loop W base_url [] events lg = (events, lg)"
| "li_loop W base_url (e # es) events lg =
     (case parse_li W base_url e of
        Inl x \<Rightarrow> li_loop W base_url es events (lg @ [IssueParsing x])
      | Inr None \<Rightarrow> li_loop W base_url es events lg
      | Inr (Some ev) \<Rightarrow> li_loop W base_url es (set_add (str_hash W) events ev) lg)"

definition extract_event_links_and_dates :: "'f world \<Rightarrow> string \<Rightarrow> string
    \<Rightarrow> ('f::zero) Event list \<times> 'f log_msg list" where
  "extract_event_links_and_dates W html base_url =
     (case li_loop W base_url (select_li W html) [] [] of
        (events, lg) \<Rightarrow> (events, lg @ [EventsFound (length events)]))"

section \<open>Marker Resolver: extract_marker_positions\<close>

text \<open>
  The body of the \<^verbatim>\<open>try\<close> for one event:
  \<^verbatim>\<open>
  page = requests.get(evt.link)
  page.raise_for_status()
  match = marker_pattern.search(page.text)
  if match:
      lat, lon = float(match.group(1)), float(match.group(2))
      marker_positions.append(Event(evt.link, evt.datetime, lat, lon))
  \<close>
  The result is the exception raised, or the event to append if there is one.
\<close>

definition resolve :: "'f world \<Rightarrow> 'f Event \<Rightarrow> exn + 'f Event option" where
  "resolve W evt =
     (case get_text W (link evt) of Inl x \<Rightarrow> Inl x
      | Inr body \<Rightarrow>
     (case search marker_pattern body of
        Some [g1, g2] \<Rightarrow>
          (case py_float (to_double W) g1 of Inl x \<Rightarrow> Inl x
           | Inr la \<Rightarrow>
          (case py_float (to_double W) g2 of Inl x \<Rightarrow> Inl x
           | Inr lo \<Rightarrow> Inr (Some (mk_Event (link evt) (datetime evt) la lo))))
      | _ \<Rightarrow> Inr None))"

text \<open>
  The loop over the events. \<^verbatim>\<open>except requests.RequestException\<close> logs and goes on
  with the next event; any other exception leaves the loop and the function.
\<close>

fun process_links :: "'f world \<Rightarrow> 'f Event list \<Rightarrow> 'f Event list \<Rightarrow> 'f log_msg list
    \<Rightarrow> 'f log_msg list \<times> (exn + 'f Event list)" where
  "process_links W [] marker_positions lg = (lg, Inr marker_positions)"
| "process_links W (evt # evts) marker_positions lg =
     (case resolve W evt of
        Inl RequestException \<Rightarrow>
          process_links W evts marker_positions (lg @ [ErrorFetching (link evt)])
      | Inl x \<Rightarrow> (lg, Inl x)
      | Inr None \<Rightarrow> process_links W evts marker_positions (lg @ [NoMarkerFound (link evt)])
      | Inr (Some ev) \<Rightarrow>
          process_links W evts (marker_positions @ [ev]) (lg @ [FoundMarker (lat ev) (lon ev)]))"

definition extract_marker_positions :: "('f::zero) world \<Rightarrow> string
    \<Rightarrow> 'f log_msg list \<times> (exn + 'f Event list)" where
  "extract_marker_positions W start_url =
     (case get_text W start_url of
        Inl x \<Rightarrow> ([LoadingStartUrl start_url, FailedToLoad start_url], Inr [])
      | Inr html \<Rightarrow>
          (case extract_event_links_and_dates W html start_url of
             (events_info, lg) \<Rightarrow>
               process_links W (iter_order W events_info) [] (LoadingStartUrl start_url # lg)))"

section \<open>Map Builder: generate_map\<close>

text \<open>
  The view of a Leaflet map, and the statements of the JavaScript function of the button:
  \<^verbatim>\<open>
  function(btn, map) {
      map.setView([48.856614, 2.3522219], 6);
      btn.state('zoom-to-forest');
  }
  \<close>
\<close>

record view =
  center :: "rat \<times> rat"
  zoom :: nat

datatype js_stmt = SetView "rat \<times> rat" nat | BtnState string

fun run_js :: "js_stmt \<Rightarrow> view \<Rightarrow> view" where
  "run_js (SetView c z) v = \<lparr>center = c, zoom = z\<rparr>"
| "run_js (BtnState s) v = v"

record JsButton =
  btn_title :: string
  btn_function :: "js_stmt list"

record 'f marker =
  position :: "'f \<times> 'f"
  popup :: string

record 'f folium_map =
  location :: "rat \<times> rat"
  zoom_start :: nat
  controls :: "JsButton list"
  markers :: "'f marker list"

definition initial_view :: "'f folium_map \<Rightarrow> view" where
  "initial_view m = \<lparr>center = location m, zoom = zoom_start m\<rparr>"

text \<open>Clicking the button runs its function on the current view.\<close>

definition activate :: "JsButton \<Rightarrow> view \<Rightarrow> view" where
  "activate b v = fold run_js (btn_function b) v"

definition dq :: char where
  "dq = CHR 0x22"

text \<open>
  \<^verbatim>\<open>
  html = f'<a href="{event.link}" target="_blank"><b>{event.title}</b></a><br>Date: {event.datetime.strftime("%B %d, %Y")}'
  \<close>
\<close>

definition popup_html :: "'f Event \<Rightarrow> string" where
  "popup_html event =
     ''<a href='' @ [dq] @ link event @ [dq] @ '' target='' @ [dq] @ ''_blank'' @ [dq]
     @ ''><b>'' @ title event @ ''</b></a><br>Date: '' @ strftime (datetime event)"

definition reset_button :: JsButton where
  "reset_button =
     \<lparr>btn_title = ''<i class='' @ [dq] @ ''fas fa-crosshairs'' @ [dq] @ ''></i>'',
      btn_function = [SetView (48856614 / 1000000, 23522219 / 10000000) 6,
                      BtnState ''zoom-to-forest'']\<rparr>"

text \<open>The map as it is just before \<^verbatim>\<open>m.save(output_file)\<close>.\<close>

definition build_map :: "'f Event list \<Rightarrow> 'f folium_map" where
  "build_map marker_positions =
     \<lparr>location = (48856614 / 1000000, 23522219 / 10000000), zoom_start = 6,
      controls = [reset_button],
      markers = map (\<lambda>event. \<lparr>position = (lat event, lon event), popup = popup_html event\<rparr>)
                  marker_positions\<rparr>"

text \<open>
  The files: what is stored at each path, and the paths that can be written (\<^verbatim>\<open>m.save\<close>
  raises OSError on the others).
\<close>

record 'f filesystem =
  files :: "string \<rightharpoonup> 'f folium_map"
  writable :: "string \<Rightarrow> bool"

definition generate_map :: "'f Event list \<Rightarrow> string \<Rightarrow> 'f filesystem
    \<Rightarrow> 'f log_msg list \<times> (exn + 'f filesystem)" where
  "generate_map marker_positions output_file fs =
     (if marker_positions = [] then ([NoMarkersToPlot], Inr fs)
      else if \<not> writable fs output_file then ([], Inl OSError)
      else ([MapSaved output_file],
            Inr (fs\<lparr>files := (files fs)(output_file \<mapsto> build_map marker_positions)\<rparr>)))"

section \<open>The main program\<close>

text \<open>
  \<^verbatim>\<open>
  url = "https://fftri.t2area.com/calendrier.html"
  positions = []
  for i in range(0, 200, 10):
      positions += extract_marker_positions(url + f"?limitstart={i}")
  generate_map(positions)
  \<close>
\<close>

definition page_url :: "nat \<Rightarrow> string" where
  "page_url i = ''https://fftri.t2area.com/calendrier.html'' @ ''?limitstart='' @ str_nat i"

fun crawl :: "('f::zero) world \<Rightarrow> nat list \<Rightarrow> 'f Event list \<Rightarrow> 'f log_msg list
    \<Rightarrow> 'f log_msg list \<times> (exn + 'f Event list)" where
  "crawl W [] positions lg = (lg, Inr positions)"
| "crawl W (i # offsets) positions lg =
     (case extract_marker_positions W (page_url i) of
        (lg', Inl x) \<Rightarrow> (lg @ lg', Inl x)
      | (lg', Inr ps) \<Rightarrow> crawl W offsets (positions @ ps) (lg @ lg'))"

definition offsets :: "nat list" where
  "offsets = map (\<lambda>k. 10 * k) [0..<20]"

definition main :: "('f::zero) world \<Rightarrow> 'f filesystem \<Rightarrow> 'f log_msg list \<times> (exn + 'f filesystem)" where
  "main W fs =
     (case crawl W offsets [] [] of
        (lg, Inl x) \<Rightarrow> (lg, Inl x)
      | (lg, Inr positions) \<Rightarrow>
          (case generate_map positions ''build/index.html'' fs of
             (lg', r) \<Rightarrow> (lg @ lg', r)))"

section \<open>Positions of the marker pattern in a text\<close>


section \<open>The text of a date\<close>







section \<open>Occurrences of a text\<close>


section \<open>Example inputs\<close>

text \<open>
  A world given by the pages it serves (every other URL answers 404) and by the listing
  entries the parser finds in each listing text (none in any other text). Every href of
  the examples is an absolute URL, which \<^verbatim>\<open>urljoin\<close> returns as it is. A set is
  iterated in the order of insertion, and the floats are rationals, each decimal standing
  for the double nearest to it.
\<close>

definition mk_world :: "(string \<times> http) list \<Rightarrow> (string \<times> li list) list \<Rightarrow> rat world" where
  "mk_world pages listings =
     \<lparr>fetch = (\<lambda>u. case map_of pages u of Some r \<Rightarrow> r | None \<Rightarrow> Response 404 []),
      select_li = (\<lambda>h. case map_of listings h of Some es \<Rightarrow> es | None \<Rightarrow> []),
      urljoin = (\<lambda>b h. Inr h),
      str_hash = (\<lambda>s. int (length s)),
      iter_order = (\<lambda>evs. evs),
      to_double = (\<lambda>neg m. if neg then - m else m)\<rparr>"

definition entry :: "string \<Rightarrow> string \<Rightarrow> li" where
  "entry href dt = \<lparr>a_tag = Some [''href'' \<mapsto> href], time_tag = Some [''datetime'' \<mapsto> dt]\<rparr>"

definition walk_link :: string where
  "walk_link = ''https://fftri.t2area.com/calendrier/autumn-forest-walk.html''"

definition run_link :: string where
  "run_link = ''https://fftri.t2area.com/calendrier/spring-run.html''"

definition swim_link :: string where
  "swim_link = ''https://fftri.t2area.com/calendrier/lake-swim.html''"

definition walk_listing :: string where
  "walk_listing = ''<ul id=adv-filter-gallery><li><h4 class=stories__headline><a href=https://fftri.t2area.com/calendrier/autumn-forest-walk.html>Walk</a></h4><time datetime=2024-04-05></time></li></ul>''"

definition paris_page :: string where
  "paris_page = ''<script>var marker = L.marker([48.85,2.35]).addTo(map);</script>''"

definition lyon_page :: string where
  "lyon_page = ''<script>var  marker=L.marker( [ 45.75 , 4.85 ] ).addTo(map);</script>''"

definition bad_page :: string where
  "bad_page = ''<script>var marker = L.marker([1.2.3,4]).addTo(map);</script>''"

definition two_marker_page :: string where
  "two_marker_page = ''<script>var marker = L.marker([45.75,4.85]); var marker = L.marker([48.85,2.35]);</script>''"

definition april5 :: date where
  "april5 = \<lparr>year = 2024, month = 4, day = 5\<rparr>"

text \<open>The same event is listed on the pages at offsets 0 and 10.\<close>

definition W_dup :: "rat world" where
  "W_dup = mk_world
     [(page_url 0, Response 200 walk_listing), (page_url 10, Response 200 walk_listing),
      (walk_link, Response 200 paris_page)]
     [(walk_listing, [entry walk_link ''2024-04-05''])]"

text \<open>
  One page lists three events; the detail page of the second holds a marker whose first
  coordinate is the text \<^verbatim>\<open>1.2.3\<close>.
\<close>

definition W_bad :: "rat world" where
  "W_bad = mk_world
     [(page_url 0, Response 200 ''three''), (walk_link, Response 200 paris_page),
      (run_link, Response 200 bad_page), (swim_link, Response 200 lyon_page)]
     [(''three'', [entry walk_link ''2024-04-05'', entry run_link ''2024-04-06'',
                   entry swim_link ''2024-04-07''])]"

text \<open>The same three events; the detail page of the second answers 500.\<close>

definition W_500 :: "rat world" where
  "W_500 = mk_world
     [(page_url 0, Response 200 ''three''), (walk_link, Response 200 paris_page),
      (run_link, Response 500 []), (swim_link, Response 200 lyon_page)]
     [(''three'', [entry walk_link ''2024-04-05'', entry run_link ''2024-04-06'',
                   entry swim_link ''2024-04-07''])]"

text \<open>A page whose first entry has no headline link and whose second entry is complete.\<close>

definition nolink_entry :: li where
  "nolink_entry = \<lparr>a_tag = None, time_tag = Some [''datetime'' \<mapsto> ''2024-04-05'']\<rparr>"

definition W_nolink :: "rat world" where
  "W_nolink = mk_world []
     [(''two'', [nolink_entry, entry run_link ''2024-04-06'']),
      (''one'', [entry run_link ''2024-04-06''])]"






text \<open>
  The detail page holds the marker \<^verbatim>\<open>var marker = L.marker([48.85,2.35]\<close> once, after
  another marker.
\<close>

definition early_page :: string where
  "early_page = ''<script>var marker = L.marker([1,2]); var marker = L.marker([48.85,2.35]);</script>''"


text \<open>The detail page holds no marker.\<close>

definition plain_page :: string where
  "plain_page = ''<p>no map</p>''"


definition example_event :: "rat Event" where
  "example_event = stub ''https://example.com/calendrier/autumn-forest-walk.html'' april5"

definition no_files :: "rat filesystem" where
  "no_files = \<lparr>files = Map.empty, writable = (\<lambda>p. True)\<rparr>"

section \<open>Evaluation\<close>

text \<open>The equations that evaluate the model on a concrete input.\<close>

lemmas char_defs = is_digit_def digit_val_def digit_char_def is_space_def is_numch_def in_range_def
  is_upper_def is_lower_def to_upper_def to_lower_def char_of_def bit_0

lemmas date_defs = strptime_def md_matches_def month_alts_def day_alts_def alt1_def alt2_def
  alt_sp_def digits_val_def valid_date_def days_in_month_def is_leap_def

lemmas world_defs = mk_world_def entry_def walk_link_def run_link_def swim_link_def
  walk_listing_def paris_page_def lyon_page_def bad_page_def two_marker_page_def plain_page_def
  early_page_def april5_def page_url_def nolink_entry_def

lemmas crawl_defs = extract_marker_positions_def extract_event_links_and_dates_def parse_li_def
  resolve_def get_text_def raise_for_status_def set_add_def hash_Event_def stub_def mk_Event_def
  marker_pattern_def lit_def py_float_def

lemmas title_defs = title_def popup_html_def strftime_def month_name_def month_names_def pad2_def
  removeprefix_def removesuffix_def replace_char_def example_event_def





section \<open>Map Builder: properties\<close>

text \<open>
  C7. With an empty list of events, \<open>generate_map\<close> writes the one log line and returns;
  the files are those it was given, whatever the output path.
\<close>

theorem generate_map_empty_noop:
  "generate_map [] output_file fs = ([NoMarkersToPlot], Inr fs)"
  by (simp add: generate_map_def)

text \<open>
  C9. The map holds one control, the reset button, and clicking it in any view gives
  the view the map is created with: the same centre and the same zoom level.
\<close>

theorem reset_button_home_view:
  "controls (build_map marker_positions) = [reset_button]
   \<and> activate reset_button v = initial_view (build_map marker_positions)"
  by (simp add: build_map_def reset_button_def activate_def initial_view_def)

section \<open>Marker Resolver: the search\<close>














section \<open>The derived title and the popup\<close>

text \<open>
  C3, as the claim states it: the derived title of the example event is not the text
  \<^verbatim>\<open>Autumn Forest Walk\<close>. The prefix that \<open>title\<close> removes is that of the calendar site,
  and the link of the example, on another host, does not start with it.
\<close>

theorem title_example_counterexample:
  "title example_event \<noteq> ''Autumn Forest Walk''"
  by (simp add: title_defs char_defs stub_def mk_Event_def)

text \<open>
  C3, amended. The derived title of the example event is the whole link in title case
  without its suffix, which ends with \<^verbatim>\<open>Autumn Forest Walk\<close>; the popup holds this title
  between the bold tags and ends with the date \<^verbatim>\<open>April 05, 2024\<close>. For the same page
  name on the calendar site the title is \<^verbatim>\<open>Autumn Forest Walk\<close> itself.
\<close>

theorem popup_example:
  "title example_event = ''Https://Example.Com/Calendrier/'' @ ''Autumn Forest Walk''
   \<and> popup_html example_event
       = ''<a href='' @ [dq] @ ''https://example.com/calendrier/autumn-forest-walk.html'' @ [dq]
         @ '' target='' @ [dq] @ ''_blank'' @ [dq] @ ''><b>''
         @ ''Https://Example.Com/Calendrier/'' @ ''Autumn Forest Walk''
         @ ''</b></a><br>Date: '' @ ''April 05, 2024''
   \<and> title (stub walk_link april5) = ''Autumn Forest Walk''"
  by (simp add: title_defs char_defs stub_def mk_Event_def april5_def walk_link_def str_nat.simps)

section \<open>Listing Crawler: properties\<close>

lemma set_add_eq: "set_add h s e = (if e \<in> set s then s else s @ [e])"
  by (auto simp: set_add_def list_ex_iff)

lemma li_loop_append:
  "li_loop W b (es1 @ es2) evs lg
   = (case li_loop W b es1 evs lg of (evs', lg') \<Rightarrow> li_loop W b es2 evs' lg')"
  by (induction es1 arbitrary: evs lg) (auto split: sum.splits option.splits)


lemma snd_li_loop_log: "snd (li_loop W b es evs (lg0 @ lg)) = lg0 @ snd (li_loop W b es evs lg)"
proof (induction es arbitrary: evs lg)
  case Nil
  then show ?case by simp
next
  case (Cons e es)
  show ?case
  proof (cases "parse_li W b e")
    case (Inl x)
    with Cons.IH [of evs "lg @ [IssueParsing x]"] show ?thesis by simp
  next
    case (Inr r)
    with Cons.IH show ?thesis by (cases r) simp_all
  qed
qed


lemma li_loop_log_keeps: "set lg \<subseteq> set (snd (li_loop W b es evs lg))"
  using snd_li_loop_log [of W b es evs lg "[]"] by simp

lemma parse_li_missing:
  "a_tag e = None \<or> time_tag e = None \<Longrightarrow> parse_li W b e = Inr None"
  by (auto simp: parse_li_def split: option.splits)

text \<open>
  C4, amended. A listing entry without the headline link or without the time element is
  skipped without a warning: the page gives the same events and the same log lines as the
  page without that entry, so the other entries are parsed as before. The parser returns
  its result for every page; it has no failure.
\<close>

theorem missing_tag_skipped:
  assumes "select_li W html = es1 @ e # es2" and "select_li W html' = es1 @ es2"
    and "a_tag e = None \<or> time_tag e = None"
  shows "extract_event_links_and_dates W html base_url
         = extract_event_links_and_dates W html' base_url"
  using assms(1,2) parse_li_missing [OF assms(3), of W base_url]
  by (simp add: extract_event_links_and_dates_def li_loop_append split: prod.splits)



theorem missing_tag_skipped_witness:
  "select_li W_nolink ''two'' = [] @ nolink_entry # [entry run_link ''2024-04-06'']
   \<and> select_li W_nolink ''one'' = [] @ [entry run_link ''2024-04-06'']
   \<and> a_tag nolink_entry = None
   \<and> extract_event_links_and_dates W_nolink ''two'' (page_url 0)
       = extract_event_links_and_dates W_nolink ''one'' (page_url 0)"
proof -
  have s2: "select_li W_nolink ''two'' = [] @ nolink_entry # [entry run_link ''2024-04-06'']"
    by (simp add: W_nolink_def mk_world_def)
  have s1: "select_li W_nolink ''one'' = [] @ [entry run_link ''2024-04-06'']"
    by (simp add: W_nolink_def mk_world_def)
  have a: "a_tag nolink_entry = None"
    by (simp add: nolink_entry_def)
  then have "a_tag nolink_entry = None \<or> time_tag nolink_entry = None" by (rule disjI1)
  from missing_tag_skipped [OF s2 s1 this]
  have "extract_event_links_and_dates W_nolink ''two'' (page_url 0)
       = extract_event_links_and_dates W_nolink ''one'' (page_url 0)" .
  with s2 s1 a show ?thesis by (intro conjI)
qed

text \<open>
  C4, as the claim states it: the first entry of this page has no headline link, and the
  log of the page holds the final count only, no warning.
\<close>

theorem missing_tag_warning_counterexample:
  "extract_event_links_and_dates W_nolink ''two'' (page_url 0)
   = ([stub run_link \<lparr>year = 2024, month = 4, day = 6\<rparr>], [EventsFound 1])"
  by (simp add: W_nolink_def world_defs crawl_defs char_defs date_defs)

































lemma fst_extract:
  "fst (extract_event_links_and_dates W html b) = fst (li_loop W b (select_li W html) [] [])"
  by (simp add: extract_event_links_and_dates_def split: prod.splits)








section \<open>The crawl of the pages\<close>







lemmas page_evals = world_defs crawl_defs char_defs date_defs str_nat.simps



text \<open>
  C2. A failure while resolving one event is to stay with that event: resolution returns
  to its caller and the other events keep their results. At this input it does not: one
  page lists three events, and the marker of the second holds the text \<^verbatim>\<open>1.2.3\<close>,
  which the pattern accepts and \<^verbatim>\<open>float\<close> rejects. The ValueError leaves
  \<open>extract_marker_positions\<close>: the first event, already resolved, is lost with it and
  the third is never fetched.
\<close>

theorem float_error_propagates:
  "extract_marker_positions W_bad (page_url 0)
   = ([LoadingStartUrl (page_url 0), EventsFound 3, FoundMarker (4885 / 100) (235 / 100)],
      Inl ValueError)"
  by (simp add: W_bad_def page_evals)

text \<open>The same three events when the second detail page answers 500: two are resolved.\<close>

lemma transport_error_example:
  "extract_marker_positions W_500 (page_url 0)
   = ([LoadingStartUrl (page_url 0), EventsFound 3, FoundMarker (4885 / 100) (235 / 100),
       ErrorFetching run_link, FoundMarker (4575 / 100) (485 / 100)],
      Inr [mk_Event walk_link april5 (4885 / 100) (235 / 100),
           mk_Event swim_link \<lparr>year = 2024, month = 4, day = 7\<rparr> (4575 / 100) (485 / 100)])"
  by (simp add: W_500_def page_evals)

text \<open>
  C1, as the claim states it: the pages at offsets 0 and 10 list the same event, and the
  list passed to \<open>generate_map\<close> holds it twice.
\<close>

theorem duplicate_across_pages_counterexample:
  "snd (crawl W_dup offsets [] [])
   = Inr [mk_Event walk_link april5 (4885 / 100) (235 / 100),
          mk_Event walk_link april5 (4885 / 100) (235 / 100)]"
  by (simp add: W_dup_def offsets_def upt_rec page_evals)

section \<open>De-duplication\<close>

lemma parse_li_stub: "parse_li W b e = Inr (Some ev) \<Longrightarrow> lat ev = 0 \<and> lon ev = 0"
  by (auto simp: parse_li_def stub_def mk_Event_def split: option.splits sum.splits)

lemma li_loop_inv:
  assumes "distinct evs" and "\<forall>ev\<in>set evs. lat ev = 0 \<and> lon ev = 0"
  shows "distinct (fst (li_loop W b es evs lg))
         \<and> (\<forall>ev\<in>set (fst (li_loop W b es evs lg)). lat ev = 0 \<and> lon ev = 0)"
  using assms
proof (induction es arbitrary: evs lg)
  case Nil
  then show ?case by simp
next
  case (Cons e es)
  show ?case
  proof (cases "parse_li W b e")
    case (Inl x)
    with Cons.IH [OF Cons.prems] show ?thesis by simp
  next
    case (Inr r)
    show ?thesis
    proof (cases r)
      case None
      with Inr Cons.IH [OF Cons.prems] show ?thesis by simp
    next
      case (Some ev)
      from Inr Some have z: "lat ev = 0 \<and> lon ev = 0"
        using parse_li_stub by blast
      have d: "distinct (set_add (str_hash W) evs ev)"
        using Cons.prems(1) by (simp add: set_add_eq)
      have a: "\<forall>x\<in>set (set_add (str_hash W) evs ev). lat x = 0 \<and> lon x = 0"
        using Cons.prems(2) z by (simp add: set_add_eq)
      from Cons.IH [OF d a] Inr Some show ?thesis by simp
    qed
  qed
qed

lemma distinct_all_equal:
  assumes "distinct xs" and "\<forall>x\<in>set xs. x = a"
  shows "length xs \<le> 1"
proof (cases xs)
  case Nil
  then show ?thesis by simp
next
  case (Cons x ys)
  have "ys = []"
  proof (cases ys)
    case Nil
    then show ?thesis .
  next
    case (Cons y zs)
    with \<open>xs = x # ys\<close> assms show ?thesis by auto
  qed
  with Cons show ?thesis by simp
qed

lemma page_events_once:
  "length (filter (\<lambda>ev. link ev = l \<and> datetime ev = d)
             (fst (extract_event_links_and_dates W html base_url))) \<le> 1"
proof -
  let ?evs = "fst (li_loop W base_url (select_li W html) [] [])"
  from li_loop_inv [of "[]" W base_url "select_li W html" "[]"]
  have d: "distinct ?evs" and z: "\<forall>ev\<in>set ?evs. lat ev = 0 \<and> lon ev = 0"
    by simp_all
  have "distinct (filter (\<lambda>ev. link ev = l \<and> datetime ev = d) ?evs)"
    using d by simp
  moreover have "\<forall>x\<in>set (filter (\<lambda>ev. link ev = l \<and> datetime ev = d) ?evs). x = stub l d"
    using z by (auto simp: stub_def mk_Event_def)
  ultimately have "length (filter (\<lambda>ev. link ev = l \<and> datetime ev = d) ?evs) \<le> 1"
    by (rule distinct_all_equal)
  then show ?thesis
    by (simp only: fst_extract)
qed

lemma crawl_concat:
  "list_all (\<lambda>i. \<not> isl (snd (extract_marker_positions W (page_url i)))) offs
   \<Longrightarrow> snd (crawl W offs positions lg)
       = Inr (positions
              @ concat (map (\<lambda>i. projr (snd (extract_marker_positions W (page_url i)))) offs))"
proof (induction offs arbitrary: positions lg)
  case Nil
  then show ?case by simp
next
  case (Cons i offs)
  obtain lg' r where p: "extract_marker_positions W (page_url i) = (lg', r)"
    by (cases "extract_marker_positions W (page_url i)")
  with Cons.prems obtain ps where r: "r = Inr ps"
    by (cases r) simp_all
  from Cons.prems have "list_all (\<lambda>i. \<not> isl (snd (extract_marker_positions W (page_url i)))) offs"
    by simp
  from Cons.IH [OF this, of "positions @ ps" "lg @ lg'"] p r
  show ?case by simp
qed

text \<open>
  C1, amended. The hash of an event depends on its link alone. The events of one listing
  page hold at most one event for a link and a date. The list passed on by the main
  program is the concatenation, in the order of the pages, of the lists resolved from
  each page (when no page raises): nothing is removed across pages.
\<close>

theorem merged_events:
  "(link e = link e' \<longrightarrow> hash_Event h e = hash_Event h e')
   \<and> length (filter (\<lambda>ev. link ev = l \<and> datetime ev = d)
               (fst (extract_event_links_and_dates W html base_url))) \<le> 1
   \<and> (list_all (\<lambda>i. \<not> isl (snd (extract_marker_positions W (page_url i)))) offs
      \<longrightarrow> snd (crawl W offs [] [])
          = Inr (concat (map (\<lambda>i. projr (snd (extract_marker_positions W (page_url i)))) offs)))"
proof (intro conjI impI)
  assume "link e = link e'"
  then show "hash_Event h e = hash_Event h e'"
    by (simp add: hash_Event_def)
next
  show "length (filter (\<lambda>ev. link ev = l \<and> datetime ev = d)
               (fst (extract_event_links_and_dates W html base_url))) \<le> 1"
    by (rule page_events_once)
next
  assume "list_all (\<lambda>i. \<not> isl (snd (extract_marker_positions W (page_url i)))) offs"
  from crawl_concat [OF this, of "[]" "[]"]
  show "snd (crawl W offs [] [])
          = Inr (concat (map (\<lambda>i. projr (snd (extract_marker_positions W (page_url i)))) offs))"
    by simp
qed

theorem merged_events_witness:
  "link (stub walk_link april5) = link (mk_Event walk_link \<lparr>year = 2025, month = 1, day = 1\<rparr> 1 2)
   \<and> hash_Event (str_hash W_dup) (stub walk_link april5)
       = hash_Event (str_hash W_dup) (mk_Event walk_link \<lparr>year = 2025, month = 1, day = 1\<rparr> 1 2)
   \<and> fst (extract_event_links_and_dates W_dup walk_listing (page_url 0)) = [stub walk_link april5]
   \<and> length (filter (\<lambda>ev. link ev = walk_link \<and> datetime ev = april5)
               (fst (extract_event_links_and_dates W_dup walk_listing (page_url 0)))) \<le> 1
   \<and> list_all (\<lambda>i. \<not> isl (snd (extract_marker_positions W_dup (page_url i)))) [0, 10]
   \<and> snd (crawl W_dup [0, 10] [] [])
       = Inr (concat (map (\<lambda>i. projr (snd (extract_marker_positions W_dup (page_url i)))) [0, 10]))"
proof -
  let ?e = "stub walk_link april5"
  let ?e' = "mk_Event walk_link \<lparr>year = 2025, month = 1, day = 1\<rparr> 1 2"
  note t = merged_events [of ?e ?e' "str_hash W_dup" walk_link april5 W_dup walk_listing
      "page_url 0" "[0, 10]"]
  have l: "link ?e = link ?e'"
    by (simp add: stub_def mk_Event_def)
  have p0: "snd (extract_marker_positions W_dup (page_url 0))
      = Inr [mk_Event walk_link april5 (4885 / 100) (235 / 100)]"
    by (simp add: W_dup_def page_evals)
  have p10: "snd (extract_marker_positions W_dup (page_url 10))
      = Inr [mk_Event walk_link april5 (4885 / 100) (235 / 100)]"
    by (simp add: W_dup_def page_evals)
  have a: "list_all (\<lambda>i. \<not> isl (snd (extract_marker_positions W_dup (page_url i)))) [0, 10]"
    by (simp add: p0 p10)
  have f: "fst (extract_event_links_and_dates W_dup walk_listing (page_url 0)) = [stub walk_link april5]"
    by (simp add: W_dup_def page_evals)
  have h: "hash_Event (str_hash W_dup) ?e = hash_Event (str_hash W_dup) ?e'"
    by (rule mp [OF conjunct1 [OF t] l])
  have c: "length (filter (\<lambda>ev. link ev = walk_link \<and> datetime ev = april5)
               (fst (extract_event_links_and_dates W_dup walk_listing (page_url 0)))) \<le> 1"
    by (rule conjunct1 [OF conjunct2 [OF t]])
  have m: "snd (crawl W_dup [0, 10] [] [])
       = Inr (concat (map (\<lambda>i. projr (snd (extract_marker_positions W_dup (page_url i)))) [0, 10]))"
    by (rule mp [OF conjunct2 [OF conjunct2 [OF t]] a])
  show ?thesis by (intro conjI l h f c a m)
qed

section \<open>Transport failures in the resolver\<close>

lemma process_links_append:
  "process_links W (evts1 @ evts2) acc lg
   = (case process_links W evts1 acc lg of
        (lg', Inl x) \<Rightarrow> (lg', Inl x)
      | (lg', Inr acc') \<Rightarrow> process_links W evts2 acc' lg')"
  by (induction evts1 arbitrary: acc lg) (auto split: sum.splits option.splits exn.splits)

lemma snd_process_links_log:
  "snd (process_links W evts acc lg) = snd (process_links W evts acc lg')"
  by (induction evts arbitrary: acc lg lg') (auto split: sum.splits option.splits exn.splits)

text \<open>
  A transport failure on the detail page of one event is contained: the events resolved
  are those of the run without that event.
\<close>

lemma transport_failure_contained:
  assumes "get_text W (link evt) = Inl RequestException"
  shows "snd (process_links W (evts1 @ evt # evts2) acc lg)
         = snd (process_links W (evts1 @ evts2) acc lg)"
proof -
  from assms have r: "resolve W evt = Inl RequestException"
    by (simp add: resolve_def)
  obtain lg' res where p: "process_links W evts1 acc lg = (lg', res)"
    by (cases "process_links W evts1 acc lg")
  show ?thesis
  proof (cases res)
    case (Inl x)
    with p show ?thesis by (simp add: process_links_append)
  next
    case (Inr acc')
    with p r snd_process_links_log [of W evts2 acc' "lg' @ [ErrorFetching (link evt)]" lg']
    show ?thesis by (simp add: process_links_append)
  qed
qed

end
